theory Spec2Isabelle
  imports Main
begin

section \<open>The modal-form mixin of streamlit/elements/modal.py\<close>

text \<open>
  The file under verification is one mixin class, \<^verbatim>\<open>ModalMixin\<close>, whose methods call
  into three other subsystems: the \<^verbatim>\<open>form\<close> helper module, the \<^verbatim>\<open>DeltaGenerator\<close>
  the mixin is part of, and the script-run context. None of these is defined in this
  file, so each function of theirs that the mixin calls is a field of the record
  \<open>collaborators\<close> below and every definition takes that record as its first argument.
  They are taken as functions that return a value of the type their call site expects;
  an exception raised inside a collaborator is not an event of this file and has no
  branch here.

  What the mixin does is make calls, so the state has two parts: the \<open>heap\<close> the
  collaborators read and write, and the list of calls made so far, oldest first.
  The decorator \<^verbatim>\<open>gather_metrics\<close> wrapped around two of the methods belongs to the
  telemetry module and is not part of the method bodies modelled here.
  \<^verbatim>\<open>self.dg\<close> is read through the property \<^verbatim>\<open>dg\<close> this class defines (lines 223 to 226).
\<close>

subsection \<open>Data\<close>

text \<open>Python objects are handled by identity.\<close>

type_synonym DeltaGenerator = nat
type_synonym ScriptRunContext = nat

text \<open>\<^verbatim>\<open>form.FormData(form_id)\<close>: the value stored in a DeltaGenerator's \<^verbatim>\<open>_form_data\<close>.\<close>

datatype FormData = FormData (form_id: string)

text \<open>
  The \<^verbatim>\<open>modal\<close> sub-message of the \<^verbatim>\<open>Block\<close> protocol-buffer message, with the two
  fields the source assigns. The generated module \<^verbatim>\<open>Block_pb2\<close> is not among the
  sources: the remaining fields of \<^verbatim>\<open>Block\<close> are the component \<open>rest\<close>, of a
  type left open, and a sub-message that was never touched is \<open>None\<close>.
\<close>

record Modal =
  form_id :: string
  clear_on_submit :: bool

record 'r Block =
  modal :: "Modal option"
  rest :: 'r

datatype exn = StreamlitAPIException string | NameError string

text \<open>The keyword arguments of \<^verbatim>\<open>self.dg._button(...)\<close>, in the order of the call site.\<close>

record 'v button_kwargs =
  label :: string
  key :: string
  help_arg :: "string option"
  is_form_submitter :: bool
  on_click :: 'v
  args :: 'v
  kwargs :: 'v
  type_arg :: string
  disabled :: bool
  use_container_width :: bool
  ctx :: "ScriptRunContext option"

text \<open>
  The heap: the \<^verbatim>\<open>_form_data\<close> attribute of every DeltaGenerator (the one attribute
  this file assigns), and the state \<open>ext\<close> owned by the collaborators.
\<close>

record 'x heap =
  form_data :: "DeltaGenerator \<Rightarrow> FormData option"
  ext :: 'x

text \<open>One entry per call that leaves this file.\<close>

datatype ('v, 'e, 'r) call =
    Form_build_form_id DeltaGenerator string
  | Form_current_form_id DeltaGenerator
  | Dg_block DeltaGenerator "'r Block"
  | Dg_button DeltaGenerator "'v button_kwargs"
  | Get_script_run_ctx
  | Create_update_open_modal_id_modal_event string
  | Ctx_enqueue ScriptRunContext 'e

record ('v, 'e, 'r, 'x) world =
  heap :: "'x heap"
  calls :: "('v, 'e, 'r) call list"

record ('v, 'e, 'r, 'x) collaborators =
  build_form_id :: "DeltaGenerator \<Rightarrow> string \<Rightarrow> 'x heap \<Rightarrow> string \<times> 'x heap"
  current_form_id :: "DeltaGenerator \<Rightarrow> 'x heap \<Rightarrow> string"
  dg_block :: "DeltaGenerator \<Rightarrow> 'r Block \<Rightarrow> 'x heap \<Rightarrow> DeltaGenerator \<times> 'x heap"
  dg_button :: "DeltaGenerator \<Rightarrow> 'v button_kwargs \<Rightarrow> 'x heap \<Rightarrow> bool \<times> 'x heap"
  get_script_run_ctx :: "'x heap \<Rightarrow> ScriptRunContext option"
  create_update_open_modal_id_modal_event :: "string \<Rightarrow> 'e"
  enqueue :: "ScriptRunContext \<Rightarrow> 'e \<Rightarrow> 'x heap \<Rightarrow> 'x heap"
  Block_rest_default :: 'r

subsection \<open>Calling a collaborator\<close>

text \<open>Each call is appended to \<open>calls\<close> and has the effect the collaborator gives it.\<close>

definition log :: "('v, 'e, 'r) call \<Rightarrow> ('v, 'e, 'r, 'x) world \<Rightarrow> ('v, 'e, 'r, 'x) world" where
  "log c w = w\<lparr>calls := calls w @ [c]\<rparr>"

definition call_build_form_id ::
  "('v, 'e, 'r, 'x) collaborators \<Rightarrow> DeltaGenerator \<Rightarrow> string \<Rightarrow> ('v, 'e, 'r, 'x) world
     \<Rightarrow> string \<times> ('v, 'e, 'r, 'x) world" where
  "call_build_form_id env d k w =
     (case build_form_id env d k (heap w) of
        (fid, h) \<Rightarrow> (fid, log (Form_build_form_id d k) (w\<lparr>heap := h\<rparr>)))"

definition call_current_form_id ::
  "('v, 'e, 'r, 'x) collaborators \<Rightarrow> DeltaGenerator \<Rightarrow> ('v, 'e, 'r, 'x) world
     \<Rightarrow> string \<times> ('v, 'e, 'r, 'x) world" where
  "call_current_form_id env d w =
     (current_form_id env d (heap w), log (Form_current_form_id d) w)"

definition call_block ::
  "('v, 'e, 'r, 'x) collaborators \<Rightarrow> DeltaGenerator \<Rightarrow> 'r Block \<Rightarrow> ('v, 'e, 'r, 'x) world
     \<Rightarrow> DeltaGenerator \<times> ('v, 'e, 'r, 'x) world" where
  "call_block env d b w =
     (case dg_block env d b (heap w) of
        (block_dg, h) \<Rightarrow> (block_dg, log (Dg_block d b) (w\<lparr>heap := h\<rparr>)))"

definition call_button ::
  "('v, 'e, 'r, 'x) collaborators \<Rightarrow> DeltaGenerator \<Rightarrow> 'v button_kwargs \<Rightarrow> ('v, 'e, 'r, 'x) world
     \<Rightarrow> bool \<times> ('v, 'e, 'r, 'x) world" where
  "call_button env d a w =
     (case dg_button env d a (heap w) of
        (clicked, h) \<Rightarrow> (clicked, log (Dg_button d a) (w\<lparr>heap := h\<rparr>)))"

definition call_get_script_run_ctx ::
  "('v, 'e, 'r, 'x) collaborators \<Rightarrow> ('v, 'e, 'r, 'x) world
     \<Rightarrow> ScriptRunContext option \<times> ('v, 'e, 'r, 'x) world" where
  "call_get_script_run_ctx env w = (get_script_run_ctx env (heap w), log Get_script_run_ctx w)"

definition call_create_event ::
  "('v, 'e, 'r, 'x) collaborators \<Rightarrow> string \<Rightarrow> ('v, 'e, 'r, 'x) world
     \<Rightarrow> 'e \<times> ('v, 'e, 'r, 'x) world" where
  "call_create_event env open_modal_id w =
     (create_update_open_modal_id_modal_event env open_modal_id,
      log (Create_update_open_modal_id_modal_event open_modal_id) w)"

definition call_enqueue ::
  "('v, 'e, 'r, 'x) collaborators \<Rightarrow> ScriptRunContext \<Rightarrow> 'e \<Rightarrow> ('v, 'e, 'r, 'x) world
     \<Rightarrow> ('v, 'e, 'r, 'x) world" where
  "call_enqueue env c ev w = log (Ctx_enqueue c ev) (w\<lparr>heap := enqueue env c ev (heap w)\<rparr>)"


subsection \<open>Protocol-buffer assignments\<close>






subsection \<open>The methods of ModalMixin\<close>

text \<open>
  The names bound at module level when the module has been imported: the imports of
  lines 15 to 24, the import of \<^verbatim>\<open>DeltaGenerator\<close> that line 26 guards with
  \<^verbatim>\<open>if TYPE_CHECKING:\<close>, and the class itself. \<^verbatim>\<open>typing.TYPE_CHECKING\<close> is \<^verbatim>\<open>False\<close>
  whenever the program runs.
\<close>

definition TYPE_CHECKING :: bool where
  "TYPE_CHECKING = False"

definition module_globals :: "string list" where
  "module_globals =
     [''TYPE_CHECKING'', ''Optional'', ''cast'', ''Literal'', ''form'', ''StreamlitAPIException'',
      ''Block_pb2'', ''create_update_open_modal_id_modal_event'', ''gather_metrics'',
      ''ScriptRunContext'', ''get_script_run_ctx'']
     @ (if TYPE_CHECKING then [''DeltaGenerator''] else [])
     @ [''ModalMixin'']"

text \<open>
  The property \<^verbatim>\<open>dg\<close> returns \<^verbatim>\<open>cast(DeltaGenerator, self)\<close>. The first argument is the
  bare name \<^verbatim>\<open>DeltaGenerator\<close>, looked up among the module's names when the property is
  read; \<^verbatim>\<open>cast\<close> returns its second argument.
\<close>

definition dg :: "DeltaGenerator \<Rightarrow> exn + DeltaGenerator" where
  "dg self =
     (if ''DeltaGenerator'' \<in> set module_globals then Inr self
      else Inl (NameError ''DeltaGenerator''))"



text \<open>
  The message of the exception raised for a bad \<^verbatim>\<open>type\<close>: two adjacent string literals,
  the first ending in a space and a newline, the second an f-string.
\<close>

definition dquote :: string where
  "dquote = [CHR 0x22]"

definition type_error_message :: "string \<Rightarrow> string" where
  "type_error_message ty =
     ''The type argument to st.button must be '' @ dquote @ ''primary'' @ dquote
       @ '' or '' @ dquote @ ''secondary'' @ dquote @ ''. '' @ [CHR 0x0A]
       @ ''The argument passed was '' @ dquote @ ty @ dquote @ ''.''"

text \<open>The private method \<^verbatim>\<open>_modal_form_submit_button\<close>.\<close>

definition modal_form_submit_button ::
  "('v, 'e, 'r, 'x) collaborators \<Rightarrow> DeltaGenerator \<Rightarrow> string \<Rightarrow> string option \<Rightarrow> 'v \<Rightarrow> 'v \<Rightarrow> 'v
     \<Rightarrow> string \<Rightarrow> bool \<Rightarrow> bool \<Rightarrow> ScriptRunContext option \<Rightarrow> ('v, 'e, 'r, 'x) world
     \<Rightarrow> (exn + bool) \<times> ('v, 'e, 'r, 'x) world" where
  "modal_form_submit_button env self lbl hlp oc ar kw ty dis ucw cx w =
     (case dg self of
        Inl e \<Rightarrow> (Inl e, w)
      | Inr d \<Rightarrow>
          (case call_current_form_id env d w of
             (fid, w1) \<Rightarrow>
               (let submit_button_key = ''FormSubmitter:'' @ fid @ ''-'' @ lbl
                in (case dg self of
                      Inl e \<Rightarrow> (Inl e, w1)
                    | Inr d' \<Rightarrow>
                        (case call_button env d'
                                \<lparr>label = lbl, key = submit_button_key, help_arg = hlp,
                                 is_form_submitter = True, on_click = oc, args = ar, kwargs = kw,
                                 type_arg = ty, disabled = dis, use_container_width = ucw,
                                 ctx = cx\<rparr> w1 of
                           (clicked, w2) \<Rightarrow> (Inr clicked, w2))))))"

definition experimental_modal_form_submit_button ::
  "('v, 'e, 'r, 'x) collaborators \<Rightarrow> DeltaGenerator \<Rightarrow> string \<Rightarrow> string option \<Rightarrow> 'v \<Rightarrow> 'v \<Rightarrow> 'v
     \<Rightarrow> string \<Rightarrow> bool \<Rightarrow> bool \<Rightarrow> ('v, 'e, 'r, 'x) world
     \<Rightarrow> (exn + bool) \<times> ('v, 'e, 'r, 'x) world" where
  "experimental_modal_form_submit_button env self lbl hlp oc ar kw ty dis ucw w =
     (case call_get_script_run_ctx env w of
        (cx, w1) \<Rightarrow>
          if ty \<notin> set [''primary'', ''secondary'']
          then (Inl (StreamlitAPIException (type_error_message ty)), w1)
          else modal_form_submit_button env self lbl hlp oc ar kw ty dis ucw cx w1)"

text \<open>
  \<^verbatim>\<open>if ctx:\<close> tests an \<^verbatim>\<open>Optional[ScriptRunContext]\<close>: \<^verbatim>\<open>None\<close> is false, a context is
  true. The arguments of \<^verbatim>\<open>ctx.enqueue\<close> are evaluated innermost first, so \<^verbatim>\<open>self.dg\<close>
  is read before any of the three calls is made. \<^verbatim>\<open>close_modal\<close> has no statement that
  can raise, and returns the world alone.
\<close>

definition open_modal ::
  "('v, 'e, 'r, 'x) collaborators \<Rightarrow> DeltaGenerator \<Rightarrow> ('v, 'e, 'r, 'x) world
     \<Rightarrow> (exn + unit) \<times> ('v, 'e, 'r, 'x) world" where
  "open_modal env self w =
     (case call_get_script_run_ctx env w of
        (cx, w1) \<Rightarrow>
          (case cx of
             None \<Rightarrow> (Inr (), w1)
           | Some c \<Rightarrow>
               (case dg self of
                  Inl e \<Rightarrow> (Inl e, w1)
                | Inr d \<Rightarrow>
                    (case call_current_form_id env d w1 of
                       (fid, w2) \<Rightarrow>
                         (case call_create_event env fid w2 of
                            (ev, w3) \<Rightarrow> (Inr (), call_enqueue env c ev w3))))))"

definition close_modal ::
  "('v, 'e, 'r, 'x) collaborators \<Rightarrow> DeltaGenerator \<Rightarrow> ('v, 'e, 'r, 'x) world
     \<Rightarrow> ('v, 'e, 'r, 'x) world" where
  "close_modal env self w =
     (case call_get_script_run_ctx env w of
        (cx, w1) \<Rightarrow>
          (case cx of
             None \<Rightarrow> w1
           | Some c \<Rightarrow>
               (case call_create_event env [] w1 of
                  (ev, w2) \<Rightarrow> call_enqueue env c ev w2)))"

subsection \<open>Reading the list of calls\<close>

text \<open>The calls a method made: those added to the list between two worlds.\<close>

definition calls_made ::
  "('v, 'e, 'r, 'x) world \<Rightarrow> ('v, 'e, 'r, 'x) world \<Rightarrow> ('v, 'e, 'r) call list" where
  "calls_made w w' = drop (length (calls w)) (calls w')"

fun enqueued_of :: "('v, 'e, 'r) call \<Rightarrow> (ScriptRunContext \<times> 'e) list" where
  "enqueued_of (Ctx_enqueue c ev) = [(c, ev)]"
| "enqueued_of _ = []"


fun button_of :: "('v, 'e, 'r) call \<Rightarrow> 'v button_kwargs list" where
  "button_of (Dg_button d a) = [a]"
| "button_of _ = []"

text \<open>The events enqueued, the block descriptors and the button descriptors handed over.\<close>

definition enqueued :: "('v, 'e, 'r) call list \<Rightarrow> (ScriptRunContext \<times> 'e) list" where
  "enqueued cs = concat (map enqueued_of cs)"


definition buttons :: "('v, 'e, 'r) call list \<Rightarrow> 'v button_kwargs list" where
  "buttons cs = concat (map button_of cs)"






subsection \<open>A concrete set of collaborators\<close>

text \<open>
  Used to run the methods on concrete inputs. The external state is the current
  script-run context and its queue; a form id is the key; a new block gets the next
  free identity; the current form id is read from \<^verbatim>\<open>_form_data\<close>; the button reports
  a click exactly when it is not disabled.
\<close>

type_synonym sample_ext = "ScriptRunContext option \<times> (ScriptRunContext \<times> string) list"

definition sample :: "(nat, string, unit, sample_ext) collaborators" where
  "sample =
     \<lparr>build_form_id = (\<lambda>d k h. (k, h)),
      current_form_id = (\<lambda>d h. case form_data h d of None \<Rightarrow> [] | Some fd \<Rightarrow> FormData.form_id fd),
      dg_block = (\<lambda>d b h. (Suc d, h)),
      dg_button = (\<lambda>d a h. (\<not> disabled a, h)),
      get_script_run_ctx = (\<lambda>h. fst (ext h)),
      create_update_open_modal_id_modal_event = (\<lambda>s. ''open_modal_id='' @ s),
      enqueue = (\<lambda>c ev h. h\<lparr>ext := (fst (ext h), snd (ext h) @ [(c, ev)])\<rparr>),
      Block_rest_default = ()\<rparr>"

text \<open>
  A world with the given context, an empty queue and no calls, in which the
  DeltaGenerator \<open>d\<close> is inside the form \<open>fid\<close>.
\<close>

definition sample_form_world ::
  "ScriptRunContext option \<Rightarrow> DeltaGenerator \<Rightarrow> string \<Rightarrow> (nat, string, unit, sample_ext) world" where
  "sample_form_world cx d fid =
     \<lparr>heap = \<lparr>form_data = (\<lambda>d'. None)(d := Some (FormData fid)), ext = (cx, [])\<rparr>, calls = []\<rparr>"

text \<open>A world with the given context, an empty queue, no form data and no calls.\<close>

definition sample_world :: "ScriptRunContext option \<Rightarrow> (nat, string, unit, sample_ext) world" where
  "sample_world cx = \<lparr>heap = \<lparr>form_data = (\<lambda>d. None), ext = (cx, [])\<rparr>, calls = []\<rparr>"

section \<open>Properties\<close>

subsection \<open>What each method does, in one equation\<close>

lemmas call_defs = call_build_form_id_def call_current_form_id_def call_block_def
  call_button_def call_get_script_run_ctx_def call_create_event_def call_enqueue_def log_def


text \<open>
  \<^verbatim>\<open>DeltaGenerator\<close> is not among the module's names, so reading \<^verbatim>\<open>self.dg\<close> raises
  \<^verbatim>\<open>NameError\<close>, whatever the mixin is.
\<close>

lemma dg_raises: "dg self = Inl (NameError ''DeltaGenerator'')"
  by (simp add: dg_def module_globals_def TYPE_CHECKING_def)


lemma modal_form_submit_button_eq:
  "modal_form_submit_button env self lbl hlp oc ar kw ty dis ucw cx w =
     (Inl (NameError ''DeltaGenerator''), w)"
  by (simp add: modal_form_submit_button_def dg_raises)

lemma submit_button_valid_eq:
  assumes "ty = ''primary'' \<or> ty = ''secondary''"
  shows "experimental_modal_form_submit_button env self lbl hlp oc ar kw ty dis ucw w =
     (Inl (NameError ''DeltaGenerator''), w\<lparr>calls := calls w @ [Get_script_run_ctx]\<rparr>)"
  using assms
  by (auto simp add: experimental_modal_form_submit_button_def modal_form_submit_button_eq
      call_get_script_run_ctx_def log_def)

lemma submit_button_invalid_eq:
  assumes "ty \<noteq> ''primary''" and "ty \<noteq> ''secondary''"
  shows "experimental_modal_form_submit_button env self lbl hlp oc ar kw ty dis ucw w =
     (Inl (StreamlitAPIException (type_error_message ty)), w\<lparr>calls := calls w @ [Get_script_run_ctx]\<rparr>)"
  using assms
  by (simp add: experimental_modal_form_submit_button_def call_get_script_run_ctx_def log_def)


lemma open_modal_none:
  assumes "get_script_run_ctx env (heap w) = None"
  shows "open_modal env self w = (Inr (), w\<lparr>calls := calls w @ [Get_script_run_ctx]\<rparr>)"
  using assms by (simp add: open_modal_def call_defs)

lemma close_modal_some:
  assumes "get_script_run_ctx env (heap w) = Some c"
    and "ev = create_update_open_modal_id_modal_event env []"
  shows "close_modal env self w =
     \<lparr>heap = enqueue env c ev (heap w),
      calls = calls w @ [Get_script_run_ctx, Create_update_open_modal_id_modal_event [],
                         Ctx_enqueue c ev]\<rparr>"
  using assms by (simp add: close_modal_def call_defs)

lemma close_modal_none:
  assumes "get_script_run_ctx env (heap w) = None"
  shows "close_modal env self w = w\<lparr>calls := calls w @ [Get_script_run_ctx]\<rparr>"
  using assms by (simp add: close_modal_def call_defs)








text \<open>The concrete collaborators, evaluated.\<close>

lemma sample_simps:
  "build_form_id sample d k h = (k, h)"
  "current_form_id sample d h = (case form_data h d of None \<Rightarrow> [] | Some fd \<Rightarrow> FormData.form_id fd)"
  "dg_block sample d b h = (Suc d, h)"
  "dg_button sample d a h = (\<not> disabled a, h)"
  "get_script_run_ctx sample h = fst (ext h)"
  "create_update_open_modal_id_modal_event sample s = ''open_modal_id='' @ s"
  "enqueue sample c ev h = h\<lparr>ext := (fst (ext h), snd (ext h) @ [(c, ev)])\<rparr>"
  "Block_rest_default sample = ()"
  by (simp_all add: sample_def)

lemma sample_world_simps:
  "heap (sample_world cx) = \<lparr>form_data = (\<lambda>d. None), ext = (cx, [])\<rparr>"
  "calls (sample_world cx) = []"
  "heap (sample_form_world cx d fid) =
     \<lparr>form_data = (\<lambda>d'. None)(d := Some (FormData fid)), ext = (cx, [])\<rparr>"
  "calls (sample_form_world cx d fid) = []"
  by (simp_all add: sample_world_def sample_form_world_def)

subsection \<open>Opening and closing the modal\<close>




text \<open>
  C3, as stated: every call of \<^verbatim>\<open>close_modal\<close> enqueues exactly one event. With no
  script-run context it enqueues none.
\<close>

theorem close_modal_without_ctx_enqueues_nothing:
  "enqueued (calls_made (sample_world None) (close_modal sample 0 (sample_world None))) = []"
  by (simp add: close_modal_none sample_simps sample_world_simps calls_made_def enqueued_def)

text \<open>
  C3, amended: \<^verbatim>\<open>close_modal\<close> does the same whichever DeltaGenerator the mixin is
  bound to, and whenever \<^verbatim>\<open>get_script_run_ctx()\<close> returns a context it enqueues on that
  context exactly one event, built with the empty string as \<^verbatim>\<open>open_modal_id\<close>, and
  nothing else.
\<close>

theorem close_modal_enqueues_empty_id:
  "close_modal env self w = close_modal env self' w
   \<and> (get_script_run_ctx env (heap w) = Some c \<longrightarrow>
        enqueued (calls_made w (close_modal env self w)) =
          [(c, create_update_open_modal_id_modal_event env [])]
      \<and> calls_made w (close_modal env self w) =
          [Get_script_run_ctx, Create_update_open_modal_id_modal_event [],
           Ctx_enqueue c (create_update_open_modal_id_modal_event env [])]
      \<and> heap (close_modal env self w) =
          enqueue env c (create_update_open_modal_id_modal_event env []) (heap w))"
proof (intro conjI impI)
  show "close_modal env self w = close_modal env self' w"
    by (simp add: close_modal_def)
next
  assume h: "get_script_run_ctx env (heap w) = Some c"
  note eq = close_modal_some [OF h refl, of self]
  show "enqueued (calls_made w (close_modal env self w)) =
          [(c, create_update_open_modal_id_modal_event env [])]"
    by (simp add: eq calls_made_def enqueued_def)
  show "calls_made w (close_modal env self w) =
          [Get_script_run_ctx, Create_update_open_modal_id_modal_event [],
           Ctx_enqueue c (create_update_open_modal_id_modal_event env [])]"
    by (simp add: eq calls_made_def)
  show "heap (close_modal env self w) =
          enqueue env c (create_update_open_modal_id_modal_event env []) (heap w)"
    by (simp add: eq)
qed

theorem close_modal_enqueues_empty_id_witness:
  "get_script_run_ctx sample (heap (sample_world (Some 3))) = Some 3
   \<and> close_modal sample 0 (sample_world (Some 3)) = close_modal sample 7 (sample_world (Some 3))
   \<and> enqueued (calls_made (sample_world (Some 3)) (close_modal sample 0 (sample_world (Some 3))))
       = [(3, ''open_modal_id='')]"
proof -
  have h: "get_script_run_ctx sample (heap (sample_world (Some 3))) = Some 3"
    by (simp add: sample_simps sample_world_simps)
  show ?thesis
    using h close_modal_enqueues_empty_id [of sample 0 "sample_world (Some 3)" 7 3]
    by (auto simp add: sample_simps)
qed

text \<open>
  C9: when \<^verbatim>\<open>get_script_run_ctx()\<close> returns \<^verbatim>\<open>None\<close>, \<^verbatim>\<open>open_modal\<close> and \<^verbatim>\<open>close_modal\<close>
  do nothing: each makes that one call and returns, enqueues no event, raises nothing
  (\<^verbatim>\<open>open_modal\<close> returns normally, \<^verbatim>\<open>close_modal\<close> has no exceptional result) and leaves
  the heap as it was.
\<close>

theorem open_close_modal_noop_without_ctx:
  assumes "get_script_run_ctx env (heap w) = None"
  shows "fst (open_modal env self w) = Inr ()
       \<and> calls_made w (snd (open_modal env self w)) = [Get_script_run_ctx]
       \<and> enqueued (calls_made w (snd (open_modal env self w))) = []
       \<and> heap (snd (open_modal env self w)) = heap w
       \<and> calls_made w (close_modal env self w) = [Get_script_run_ctx]
       \<and> enqueued (calls_made w (close_modal env self w)) = []
       \<and> heap (close_modal env self w) = heap w"
  by (simp add: open_modal_none [OF assms] close_modal_none [OF assms] calls_made_def enqueued_def)

theorem open_close_modal_noop_without_ctx_witness:
  "get_script_run_ctx sample (heap (sample_world None)) = None
   \<and> fst (open_modal sample 0 (sample_world None)) = Inr ()
   \<and> heap (snd (open_modal sample 0 (sample_world None))) = heap (sample_world None)
   \<and> heap (close_modal sample 0 (sample_world None)) = heap (sample_world None)
   \<and> calls (snd (open_modal sample 0 (sample_world None))) = [Get_script_run_ctx]
   \<and> calls (close_modal sample 0 (sample_world None)) = [Get_script_run_ctx]"
proof -
  have h: "get_script_run_ctx sample (heap (sample_world None)) = None"
    by (simp add: sample_simps sample_world_simps)
  show ?thesis
    using h open_close_modal_noop_without_ctx [OF h, of 0]
    by (simp add: calls_made_def sample_world_simps)
qed

subsection \<open>The modal form, the submit button and \<^verbatim>\<open>self.dg\<close>\<close>





text \<open>
  C8: \<^verbatim>\<open>experimental_modal_form_submit_button\<close> raises \<^verbatim>\<open>StreamlitAPIException\<close> if and
  only if \<^verbatim>\<open>type\<close> is neither \<^verbatim>\<open>"primary"\<close> nor \<^verbatim>\<open>"secondary"\<close>. When it raises, the only
  call made is \<^verbatim>\<open>get_script_run_ctx()\<close>: \<^verbatim>\<open>_modal_form_submit_button\<close> has not been
  entered, no button is registered and the heap is unchanged.
\<close>

theorem submit_button_raises_iff_bad_type:
  assumes r: "experimental_modal_form_submit_button env self lbl hlp oc ar kw ty dis ucw w = (res, w')"
  shows "((\<exists>msg. res = Inl (StreamlitAPIException msg)) \<longleftrightarrow>
            (ty \<noteq> ''primary'' \<and> ty \<noteq> ''secondary''))
       \<and> (ty \<noteq> ''primary'' \<and> ty \<noteq> ''secondary'' \<longrightarrow>
            res = Inl (StreamlitAPIException (type_error_message ty))
          \<and> calls_made w w' = [Get_script_run_ctx]
          \<and> buttons (calls_made w w') = []
          \<and> heap w' = heap w)"
proof (cases "ty = ''primary'' \<or> ty = ''secondary''")
  case True
  from r have "res = Inl (NameError ''DeltaGenerator'')"
    unfolding submit_button_valid_eq [OF True] by simp
  with True show ?thesis
    by auto
next
  case False
  then have n: "ty \<noteq> ''primary''" "ty \<noteq> ''secondary''"
    by simp_all
  from r show ?thesis
    unfolding submit_button_invalid_eq [OF n]
    using n by (auto simp add: calls_made_def buttons_def)
qed

theorem submit_button_raises_iff_bad_type_witness:
  "fst (experimental_modal_form_submit_button sample 0 ''OK'' None 1 2 3 ''tertiary'' False False
          (sample_world (Some 3)))
     = Inl (StreamlitAPIException (type_error_message ''tertiary''))
   \<and> snd (experimental_modal_form_submit_button sample 0 ''OK'' None 1 2 3 ''tertiary'' False False
          (sample_world (Some 3)))
     = \<lparr>heap = heap (sample_world (Some 3)), calls = [Get_script_run_ctx]\<rparr>
   \<and> (\<nexists>msg. fst (experimental_modal_form_submit_button sample 0 ''OK'' None 1 2 3 ''secondary''
          False False (sample_world (Some 3))) = Inl (StreamlitAPIException msg))"
proof -
  let ?w = "sample_world (Some 3)"
  let ?bad = "experimental_modal_form_submit_button sample 0 ''OK'' None 1 2 3 ''tertiary'' False False ?w"
  let ?good = "experimental_modal_form_submit_button sample 0 ''OK'' None 1 2 3 ''secondary'' False False ?w"
  have bad: "fst ?bad = Inl (StreamlitAPIException (type_error_message ''tertiary''))
      \<and> calls_made ?w (snd ?bad) = [Get_script_run_ctx] \<and> heap (snd ?bad) = heap ?w"
    using submit_button_raises_iff_bad_type [of sample 0 "''OK''" None 1 2 3 "''tertiary''" False False ?w
        "fst ?bad" "snd ?bad"]
    by simp
  then have "snd ?bad = \<lparr>heap = heap ?w, calls = [Get_script_run_ctx]\<rparr>"
    by (cases "snd ?bad") (simp add: calls_made_def sample_world_simps)
  moreover have "\<nexists>msg. fst ?good = Inl (StreamlitAPIException msg)"
    using submit_button_raises_iff_bad_type [of sample 0 "''OK''" None 1 2 3 "''secondary''" False False ?w
        "fst ?good" "snd ?good"]
    by simp
  ultimately show ?thesis
    using bad by simp
qed

subsection \<open>Which collaborators a method calls, and how often\<close>







end
